theory Spec2Isabelle
  imports Main "HOL-Library.AList"
begin

section \<open>Go values: results, panics, strings\<close>

text \<open>
  A Go function either returns or panics.  A panic is not an \<open>error\<close> value: it unwinds
  through every caller that does not recover, and nothing in this program recovers.
\<close>

datatype 'a outcome = Returns 'a | Panics string

type_synonym error = string

text \<open>Characters that cannot be written inside a string literal of this file.\<close>

definition nl :: string where
  "nl = [CHR 0x0A]"

definition tab :: string where
  "tab = [CHR 0x09]"

definition dq :: string where
  "dq = [CHR 0x22]"

text \<open>\<open>strings.HasPrefix(s, prefix)\<close>.\<close>

definition strings_HasPrefix :: "string \<Rightarrow> string \<Rightarrow> bool" where
  "strings_HasPrefix s p = (length p \<le> length s \<and> take (length p) s = p)"

text \<open>\<open>strings.HasSuffix\<close> and \<open>strings.TrimSuffix(s, suffix)\<close>.\<close>

definition strings_HasSuffix :: "string \<Rightarrow> string \<Rightarrow> bool" where
  "strings_HasSuffix s p = (length p \<le> length s \<and> drop (length s - length p) s = p)"

definition strings_TrimSuffix :: "string \<Rightarrow> string \<Rightarrow> string" where
  "strings_TrimSuffix s p =
     (if strings_HasSuffix s p then take (length s - length p) s else s)"

text \<open>\<open>strings.Contains(s, ".")\<close> and \<open>strings.Split(s, ".")\<close>, for a separator of one byte.
  \<open>splitOn\<close> never returns the empty list: a string without the separator is its own
  single piece.\<close>

definition strings_Contains :: "string \<Rightarrow> char \<Rightarrow> bool" where
  "strings_Contains s c = (c \<in> set s)"

fun splitOn :: "char \<Rightarrow> string \<Rightarrow> string list" where
  "splitOn c [] = [[]]"
| "splitOn c (x # xs) =
     (if x = c then [] # splitOn c xs
      else (case splitOn c xs of [] \<Rightarrow> [[x]] | y # ys \<Rightarrow> (x # y) # ys))"

definition strings_Split :: "string \<Rightarrow> char \<Rightarrow> string list" where
  "strings_Split s c = splitOn c s"

fun joinWith :: "string \<Rightarrow> string list \<Rightarrow> string" where
  "joinWith sep [] = []"
| "joinWith sep [x] = x"
| "joinWith sep (x # y # ys) = x @ sep @ joinWith sep (y # ys)"

section \<open>The syntax tree of \<open>go/ast\<close>, as far as the generator reads it\<close>

text \<open>
  Type expressions.  The first eight constructors are the node kinds the type switch of
  \<open>getFiledTypeString\<close> names; the others are further implementations of \<open>ast.Expr\<close>
  that the parser can put in a field's type position.  An \<open>ArrayType\<close> carries its
  optional length (\<open>None\<close> for a slice), an \<open>InterfaceType\<close> its method list.
\<close>

datatype expr =
    Ident string
  | StarExpr expr
  | SelectorExpr expr string
  | ArrayType "expr option" expr
  | MapType expr expr
  | InterfaceType "field list"
  | ChanType expr
  | Ellipsis expr
  | StructType "field list"
  | FuncType "field list" "field list"
  | ParenExpr expr
  | IndexExpr expr expr
  | BasicLit string
  | BadExpr
and field = Field (Field_Names: "string list") (Field_Type: expr)

datatype typeSpec = TypeSpec (Spec_Name: string) (Spec_Type: expr)

datatype spec = ImportSpecNode string | ValueSpecNode | TypeSpecNode typeSpec

datatype token = token_IMPORT | token_CONST | token_TYPE | token_VAR

text \<open>\<open>Doc\<close> is \<open>None\<close> for a nil comment group, otherwise the \<open>Text\<close> of each comment of
  \<open>Doc.List\<close> (comment markers included).\<close>

record genDecl =
  Doc :: "string list option"
  Tok :: token
  Specs :: "spec list"

text \<open>
  A parsed file.  \<open>File_Imports\<close> holds \<open>Path.Value\<close> of every entry of \<open>node.Imports\<close>:
  the string literal as written, quotes included.  \<open>File_GenDecls\<close> lists the \<open>*ast.GenDecl\<close>
  nodes in the order \<open>ast.Inspect\<close> reaches them (depth first); the callback ignores
  every other node and always returns true, so no subtree is skipped.
\<close>

record astFile =
  File_Name :: string
  File_Imports :: "string list"
  File_GenDecls :: "genDecl list"

section \<open>The type printer\<close>

text \<open>\<open>fmt.Sprintf("%T", expr)\<close>: the dynamic type of the node.\<close>

fun typeName :: "expr \<Rightarrow> string" where
  "typeName (Ident _) = ''*ast.Ident''"
| "typeName (StarExpr _) = ''*ast.StarExpr''"
| "typeName (SelectorExpr _ _) = ''*ast.SelectorExpr''"
| "typeName (ArrayType _ _) = ''*ast.ArrayType''"
| "typeName (MapType _ _) = ''*ast.MapType''"
| "typeName (InterfaceType _) = ''*ast.InterfaceType''"
| "typeName (ChanType _) = ''*ast.ChanType''"
| "typeName (Ellipsis _) = ''*ast.Ellipsis''"
| "typeName (StructType _) = ''*ast.StructType''"
| "typeName (FuncType _ _) = ''*ast.FuncType''"
| "typeName (ParenExpr _) = ''*ast.ParenExpr''"
| "typeName (IndexExpr _ _) = ''*ast.IndexExpr''"
| "typeName (BasicLit _) = ''*ast.BasicLit''"
| "typeName BadExpr = ''*ast.BadExpr''"

text \<open>\<open>fmt.Sprintf("unsupported type: %T", expr)\<close>.\<close>

definition unsupportedMessage :: "expr \<Rightarrow> string" where
  "unsupportedMessage e = ''unsupported type: '' @ typeName e"

text \<open>\<open>getFiledTypeString\<close>.  A panic in a recursive call leaves through the caller
  before the concatenation happens; in the map case the key is printed first.\<close>

fun getFiledTypeString :: "expr \<Rightarrow> string outcome" where
  "getFiledTypeString (Ident name) = Returns name"
| "getFiledTypeString (StarExpr x) =
     (case getFiledTypeString x of
        Panics m \<Rightarrow> Panics m
      | Returns s \<Rightarrow> Returns (''*'' @ s))"
| "getFiledTypeString (SelectorExpr x sel) =
     (case getFiledTypeString x of
        Panics m \<Rightarrow> Panics m
      | Returns s \<Rightarrow> Returns (s @ ''.'' @ sel))"
| "getFiledTypeString (ArrayType len elt) =
     (case getFiledTypeString elt of
        Panics m \<Rightarrow> Panics m
      | Returns s \<Rightarrow> Returns (''[]'' @ s))"
| "getFiledTypeString (MapType key val) =
     (case getFiledTypeString key of
        Panics m \<Rightarrow> Panics m
      | Returns k \<Rightarrow>
          (case getFiledTypeString val of
             Panics m \<Rightarrow> Panics m
           | Returns v \<Rightarrow> Returns (''map['' @ k @ '']'' @ v)))"
| "getFiledTypeString (InterfaceType methods) = Returns ''interface{}''"
| "getFiledTypeString (ChanType val) =
     (case getFiledTypeString val of
        Panics m \<Rightarrow> Panics m
      | Returns s \<Rightarrow> Returns (''chann '' @ s))"
| "getFiledTypeString (Ellipsis elt) =
     (case getFiledTypeString elt of
        Panics m \<Rightarrow> Panics m
      | Returns s \<Rightarrow> Returns (''...'' @ s))"
| "getFiledTypeString e = Panics (unsupportedMessage e)"

section \<open>Path functions of \<open>path/filepath\<close> (Unix)\<close>

text \<open>
  \<open>filepath.Clean\<close>, by path elements: empty elements and \<open>.\<close> are dropped, \<open>..\<close> removes
  the element before it when there is one that is not itself \<open>..\<close>, is dropped at the
  root, and is kept otherwise.  An empty result is \<open>.\<close>.
\<close>

definition cleanStep :: "bool \<Rightarrow> string list \<Rightarrow> string \<Rightarrow> string list" where
  "cleanStep rooted out c =
     (if c = [] \<or> c = ''.'' then out
      else if c = ''..'' then
        (if out \<noteq> [] \<and> last out \<noteq> ''..'' then butlast out
         else if rooted then out
         else out @ [''..''])
      else out @ [c])"

definition filepath_Clean :: "string \<Rightarrow> string" where
  "filepath_Clean p =
     (if p = [] then ''.''
      else
        (let rooted = (hd p = CHR ''/'');
             out = foldl (cleanStep rooted) [] (splitOn (CHR ''/'') p);
             r = (if rooted then ''/'' else []) @ joinWith ''/'' out
         in if r = [] then ''.'' else r))"

text \<open>\<open>filepath.Join\<close>: the elements from the first non-empty one on, joined by the
  separator and cleaned; the empty string when every element is empty.\<close>

definition filepath_Join :: "string list \<Rightarrow> string" where
  "filepath_Join elem =
     (case dropWhile (\<lambda>e. e = []) elem of
        [] \<Rightarrow> []
      | e # es \<Rightarrow> filepath_Clean (joinWith ''/'' (e # es)))"

text \<open>\<open>filepath.Base\<close>: the last element, after removing trailing separators.\<close>

definition filepath_Base :: "string \<Rightarrow> string" where
  "filepath_Base p =
     (if p = [] then ''.''
      else
        (let q = rev (dropWhile (\<lambda>c. c = CHR ''/'') (rev p));
             b = rev (takeWhile (\<lambda>c. c \<noteq> CHR ''/'') (rev q))
         in if b = [] then ''/'' else b))"

text \<open>\<open>filepath.Dir\<close>: all but the last element, cleaned.\<close>

definition filepath_Dir :: "string \<Rightarrow> string" where
  "filepath_Dir p = filepath_Clean (rev (dropWhile (\<lambda>c. c \<noteq> CHR ''/'') (rev p)))"

section \<open>The declaration scanner\<close>

record targetStructs =
  path :: string
  filename :: string
  packageName :: string
  imports_list :: "string list"
  structs :: "typeSpec list"

text \<open>\<open>importSpec.Path.Value[1:len(importSpec.Path.Value)-1]\<close>: the slice expression
  panics unless the literal has at least two bytes.\<close>

definition unquote :: "string \<Rightarrow> string outcome" where
  "unquote v =
     (if length v < 2 then Panics ''runtime error: slice bounds out of range''
      else Returns (take (length v - 2) (drop 1 v)))"

text \<open>The loop over \<open>node.Imports\<close>.  The test \<open>err != nil\<close> inside it reads the parse
  error, which is nil once the function has got this far, so the loop never leaves early.\<close>

fun importLoop :: "string list \<Rightarrow> string list \<Rightarrow> string list outcome" where
  "importLoop [] acc = Returns acc"
| "importLoop (v # vs) acc =
     (case unquote v of
        Panics m \<Rightarrow> Panics m
      | Returns s \<Rightarrow> importLoop vs (acc @ [s]))"

definition isStructType :: "expr \<Rightarrow> bool" where
  "isStructType e = (case e of StructType _ \<Rightarrow> True | _ \<Rightarrow> False)"

text \<open>The loop over \<open>genDecl.Specs\<close>: every type spec whose type is a struct is appended.\<close>

fun specLoop :: "spec list \<Rightarrow> typeSpec list \<Rightarrow> typeSpec list" where
  "specLoop [] acc = acc"
| "specLoop (TypeSpecNode ts # ss) acc =
     (if isStructType (Spec_Type ts) then specLoop ss (acc @ [ts]) else specLoop ss acc)"
| "specLoop (_ # ss) acc = specLoop ss acc"

text \<open>The loop over \<open>genDecl.Doc.List\<close>: each comment that starts with the marker appends
  the group's structs.\<close>

fun commentLoop :: "spec list \<Rightarrow> string list \<Rightarrow> typeSpec list \<Rightarrow> typeSpec list" where
  "commentLoop specs [] acc = acc"
| "commentLoop specs (c # cs) acc =
     (if strings_HasPrefix c ''//gen:setters''
      then commentLoop specs cs (specLoop specs acc)
      else commentLoop specs cs acc)"

text \<open>
  The callback given to \<open>ast.Inspect\<close>, at one \<open>*ast.GenDecl\<close>.  The state is the pair of
  the captured variables \<open>structs\<close> and \<open>imports\<close>.  For a type declaration with a doc
  comment both are assigned a fresh slice (\<open>make\<close>) before the loops fill them.
\<close>

definition visitGenDecl ::
  "astFile \<Rightarrow> genDecl \<Rightarrow> typeSpec list \<times> string list \<Rightarrow> (typeSpec list \<times> string list) outcome"
where
  "visitGenDecl node g st =
     (case Doc g of
        None \<Rightarrow> Returns st
      | Some docList \<Rightarrow>
          if Tok g \<noteq> token_TYPE then Returns st
          else
            (case importLoop (File_Imports node) [] of
               Panics m \<Rightarrow> Panics m
             | Returns imps \<Rightarrow> Returns (commentLoop (Specs g) docList [], imps)))"

fun inspect ::
  "astFile \<Rightarrow> genDecl list \<Rightarrow> typeSpec list \<times> string list \<Rightarrow> (typeSpec list \<times> string list) outcome"
where
  "inspect node [] st = Returns st"
| "inspect node (g # gs) st =
     (case visitGenDecl node g st of
        Panics m \<Rightarrow> Panics m
      | Returns st' \<Rightarrow> inspect node gs st')"

text \<open>
  \<open>searchTargetStructs\<close>.  The second argument is what \<open>parser.ParseFile\<close> returned for
  the file: an error, or the tree.  Both captured variables start as nil slices.
\<close>

definition searchTargetStructs :: "string \<Rightarrow> error + astFile \<Rightarrow> (error + targetStructs) outcome" where
  "searchTargetStructs fname parsed =
     (case parsed of
        Inl err \<Rightarrow> Returns (Inl err)
      | Inr node \<Rightarrow>
          (case inspect node (File_GenDecls node) ([], []) of
             Panics m \<Rightarrow> Panics m
           | Returns (sts, imps) \<Rightarrow>
               Returns (Inr \<lparr> path = filepath_Dir fname,
                              filename = filepath_Base fname,
                              packageName = File_Name node,
                              imports_list = imps,
                              structs = sts \<rparr>)))"

section \<open>The setter synthesizer\<close>

record setter =
  StructName :: string
  FieldName :: string
  FieldType :: string

record usedImport =
  pkg :: string
  used :: bool

record templateData =
  PackageName :: string
  Imports :: "string list"
  Setters :: "setter list"

text \<open>\<open>targetFields\<close>, the package-level variable.\<close>

definition targetFields :: "string list" where
  "targetFields = [''CreatedAt'', ''UpdatedAt'']"

fun containsTargetField :: "string \<Rightarrow> string list \<Rightarrow> bool" where
  "containsTargetField f [] = False"
| "containsTargetField f (target # targets) =
     (if f = target then True else containsTargetField f targets)"

text \<open>
  \<open>importsMap\<close> is a Go map from short name to \<open>*usedImport\<close>.  It is kept as an
  association list with distinct keys: assigning to a key that is present replaces its
  value (\<open>AList.update\<close>).  The order of the list means nothing to the program except
  where the map is ranged over, and there the runtime chooses the order (see \<open>env\<close>).
\<close>

type_synonym importsMap = "(string \<times> usedImport) list"

fun importsMapLoop :: "string list \<Rightarrow> importsMap \<Rightarrow> importsMap" where
  "importsMapLoop [] m = m"
| "importsMapLoop (imp # imps) m =
     importsMapLoop imps (AList.update (filepath_Base imp) \<lparr> pkg = imp, used = False \<rparr> m)"

text \<open>Lines 156 to 161: the text before the first \<open>.\<close> of the printed type is looked up
  in the map, and the entry found is marked.  Indexing the result of \<open>strings.Split\<close> at 0
  would panic on an empty slice.\<close>

definition markImport :: "string \<Rightarrow> importsMap \<Rightarrow> importsMap outcome" where
  "markImport fieldType m =
     (if strings_Contains fieldType (CHR ''.'') then
        (case strings_Split fieldType (CHR ''.'') of
           [] \<Rightarrow> Panics ''runtime error: index out of range''
         | p # _ \<Rightarrow>
             (case map_of m p of
                None \<Rightarrow> Returns m
              | Some _ \<Rightarrow> Returns (AList.map_entry p (\<lambda>u. u\<lparr> used := True \<rparr>) m)))
      else Returns m)"

text \<open>The loop over \<open>structType.Fields.List\<close> for the struct named \<open>sname\<close>.\<close>

fun fieldLoop ::
  "string list \<Rightarrow> string \<Rightarrow> field list \<Rightarrow> importsMap \<times> setter list \<Rightarrow> (importsMap \<times> setter list) outcome"
where
  "fieldLoop targets sname [] st = Returns st"
| "fieldLoop targets sname (f # fs) (m, setters) =
     (case Field_Names f of
        [] \<Rightarrow> fieldLoop targets sname fs (m, setters)
      | fieldName # _ \<Rightarrow>
          if \<not> containsTargetField fieldName targets then fieldLoop targets sname fs (m, setters)
          else
            (case getFiledTypeString (Field_Type f) of
               Panics msg \<Rightarrow> Panics msg
             | Returns fieldType \<Rightarrow>
                 (case markImport fieldType m of
                    Panics msg \<Rightarrow> Panics msg
                  | Returns m' \<Rightarrow>
                      fieldLoop targets sname fs
                        (m', setters @ [\<lparr> StructName = sname, FieldName = fieldName,
                                          FieldType = fieldType \<rparr>]))))"

text \<open>The loop over \<open>t.structs\<close>.\<close>

fun structLoop ::
  "string list \<Rightarrow> typeSpec list \<Rightarrow> importsMap \<times> setter list \<Rightarrow> (importsMap \<times> setter list) outcome"
where
  "structLoop targets [] st = Returns st"
| "structLoop targets (s # ss) st =
     (case Spec_Type s of
        StructType flds \<Rightarrow>
          (case fieldLoop targets (Spec_Name s) flds st of
             Panics msg \<Rightarrow> Panics msg
           | Returns st' \<Rightarrow> structLoop targets ss st')
      | _ \<Rightarrow> structLoop targets ss st)"

section \<open>The emitter\<close>

text \<open>
  The template is executed by \<open>html/template\<close>.  All of its text is in the HTML text
  context, where every action's value goes through the HTML escaper: seven bytes are
  replaced, every other byte is copied.
\<close>

definition htmlEscapeChar :: "char \<Rightarrow> string" where
  "htmlEscapeChar c =
     (if c = CHR 0x00 then [CHR 0xEF, CHR 0xBF, CHR 0xBD]
      else if c = CHR 0x22 then ''&#34;''
      else if c = CHR ''&'' then ''&amp;''
      else if c = CHR 0x27 then ''&#39;''
      else if c = CHR ''+'' then ''&#43;''
      else if c = CHR ''<'' then ''&lt;''
      else if c = CHR ''>'' then ''&gt;''
      else [c])"

definition htmlEscaper :: "string \<Rightarrow> string" where
  "htmlEscaper s = concat (map htmlEscapeChar s)"

text \<open>The body of \<open>{{range .Imports}}\<close> and of \<open>{{range .Setters}}\<close>, for one element.\<close>

definition importBody :: "string \<Rightarrow> string" where
  "importBody imp = nl @ tab @ dq @ htmlEscaper imp @ dq @ nl"

definition setterBody :: "setter \<Rightarrow> string" where
  "setterBody s =
     nl @ ''func (s *'' @ htmlEscaper (StructName s) @ '') Set'' @ htmlEscaper (FieldName s)
        @ ''(v '' @ htmlEscaper (FieldType s) @ '') {'' @ nl
        @ tab @ ''s.'' @ htmlEscaper (FieldName s) @ '' = v'' @ nl
        @ ''}'' @ nl"

text \<open>\<open>tmpl.Execute\<close> on \<open>setterTemplate\<close>.  Parsing the constant template and executing it
  on a \<open>templateData\<close> cannot fail, so the two error returns are not branches here.\<close>

definition executeTemplate :: "templateData \<Rightarrow> string" where
  "executeTemplate d =
     nl @ ''package '' @ htmlEscaper (PackageName d) @ nl
        @ nl
        @ ''import ('' @ nl
        @ concat (map importBody (Imports d))
        @ nl @ '')'' @ nl
        @ nl
        @ concat (map setterBody (Setters d))
        @ nl"

text \<open>
  What the program takes from outside:
  \<^item> \<open>format_Source\<close> is \<open>format.Source\<close> of \<open>go/format\<close>;
  \<^item> \<open>writeFails\<close> says for which paths \<open>os.WriteFile\<close> cannot open the file, and with
    which error;
  \<^item> \<open>rangeOrder\<close> is the order in which the runtime walks a map in a \<open>range\<close> statement.
    Go leaves that order unspecified and the runtime varies it from one loop to the
    next; whatever it is, it visits each entry once (\<open>rangesOnce\<close>);
  \<^item> \<open>parser_ParseFile\<close> is \<open>parser.ParseFile\<close>, applied to a file name and the file's
    content.
\<close>

record env =
  format_Source :: "string \<Rightarrow> error + string"
  writeFails :: "string \<Rightarrow> error option"
  rangeOrder :: "importsMap \<Rightarrow> importsMap"
  parser_ParseFile :: "string \<Rightarrow> string option \<Rightarrow> error + astFile"

type_synonym files = "string \<Rightarrow> string option"

definition os_WriteFile :: "env \<Rightarrow> string \<Rightarrow> string \<Rightarrow> files \<Rightarrow> error option \<times> files" where
  "os_WriteFile e name data fs =
     (case writeFails e name of
        Some err \<Rightarrow> (Some err, fs)
      | None \<Rightarrow> (None, fs(name \<mapsto> data)))"

text \<open>The loop over \<open>importsMap\<close> (lines 172 to 176).\<close>

fun usedLoop :: "importsMap \<Rightarrow> string list \<Rightarrow> string list" where
  "usedLoop [] acc = acc"
| "usedLoop ((k, imp) # rest) acc =
     (if used imp then usedLoop rest (acc @ [pkg imp]) else usedLoop rest acc)"

text \<open>
  \<open>generateTargetSetter\<close>: the error it returns (\<open>None\<close> for nil) or its panic, and the
  files afterwards.
\<close>

definition generateTargetSetter ::
  "env \<Rightarrow> targetStructs \<Rightarrow> string list \<Rightarrow> files \<Rightarrow> error option outcome \<times> files"
where
  "generateTargetSetter e t targets fs =
     (case structLoop targets (structs t) (importsMapLoop (imports_list t) [], []) of
        Panics msg \<Rightarrow> (Panics msg, fs)
      | Returns (m, setters) \<Rightarrow>
          if length setters = 0 then (Returns None, fs)
          else
            (let imps = usedLoop (rangeOrder e m) [];
                 buf = executeTemplate
                         \<lparr> PackageName = packageName t, Imports = imps, Setters = setters \<rparr>
             in case format_Source e buf of
                  Inl err \<Rightarrow> (Returns (Some err), fs)
                | Inr formatted \<Rightarrow>
                    (let outputPath =
                           filepath_Join
                             [path t, strings_TrimSuffix (filename t) ''.go'' @ ''_setters.go''];
                         (err, fs') = os_WriteFile e outputPath formatted fs
                     in (Returns err, fs'))))"

text \<open>
  The loop of \<open>main\<close> over the files found, with the lines logged.  A panic ends the
  run where it happens: the files after it are not read.
\<close>

fun mainLoop :: "env \<Rightarrow> string list \<Rightarrow> files \<times> string list \<Rightarrow> unit outcome \<times> files \<times> string list" where
  "mainLoop e [] (fs, logged) = (Returns (), fs, logged @ [''Successfully generated''])"
| "mainLoop e (file # rest) (fs, logged) =
     (case searchTargetStructs file (parser_ParseFile e file (fs file)) of
        Panics msg \<Rightarrow> (Panics msg, fs, logged)
      | Returns (Inl err) \<Rightarrow> mainLoop e rest (fs, logged @ [err])
      | Returns (Inr t) \<Rightarrow>
          (case generateTargetSetter e t targetFields fs of
             (Panics msg, fs') \<Rightarrow> (Panics msg, fs', logged)
           | (Returns (Some err), fs') \<Rightarrow> mainLoop e rest (fs', logged @ [err])
           | (Returns None, fs') \<Rightarrow> mainLoop e rest (fs', logged)))"

section \<open>Notions used by the properties\<close>

text \<open>
  The type printer as section 4.1 of the specification words it, rule by rule, for the
  node kinds it lists: a simple name, pointer-to-T, a qualified name, slice-of-T (an array
  type without a length), map(K,V), the empty interface (no methods), channel-of-T and
  variadic-of-T.  \<open>None\<close> where the rules give no text.
\<close>

fun printer :: "expr \<Rightarrow> string option" where
  "printer (Ident name) = Some name"
| "printer (StarExpr t) = map_option (\<lambda>s. ''*'' @ s) (printer t)"
| "printer (SelectorExpr p member) = map_option (\<lambda>s. s @ ''.'' @ member) (printer p)"
| "printer (ArrayType None t) = map_option (\<lambda>s. ''[]'' @ s) (printer t)"
| "printer (MapType k v) =
     (case (printer k, printer v) of
        (Some a, Some b) \<Rightarrow> Some (''map['' @ a @ '']'' @ b)
      | _ \<Rightarrow> None)"
| "printer (InterfaceType []) = Some ''interface{}''"
| "printer (ChanType t) = map_option (\<lambda>s. ''chann '' @ s) (printer t)"
| "printer (Ellipsis t) = map_option (\<lambda>s. ''...'' @ s) (printer t)"
| "printer _ = None"

text \<open>The node kinds the type switch has a case for.\<close>

definition hasSwitchCase :: "expr \<Rightarrow> bool" where
  "hasSwitchCase e =
     (case e of
        Ident _ \<Rightarrow> True | StarExpr _ \<Rightarrow> True | SelectorExpr _ _ \<Rightarrow> True
      | ArrayType _ _ \<Rightarrow> True | MapType _ _ \<Rightarrow> True | InterfaceType _ \<Rightarrow> True
      | ChanType _ \<Rightarrow> True | Ellipsis _ \<Rightarrow> True | _ \<Rightarrow> False)"

text \<open>The nodes of a type expression that the printer's recursion goes through: the
  node itself and, for the kinds that recurse, the nodes of the operands it prints.\<close>

fun typeNodes :: "expr \<Rightarrow> expr list" where
  "typeNodes (StarExpr x) = StarExpr x # typeNodes x"
| "typeNodes (SelectorExpr x sel) = SelectorExpr x sel # typeNodes x"
| "typeNodes (ArrayType len elt) = ArrayType len elt # typeNodes elt"
| "typeNodes (MapType key val) = MapType key val # typeNodes key @ typeNodes val"
| "typeNodes (ChanType val) = ChanType val # typeNodes val"
| "typeNodes (Ellipsis elt) = Ellipsis elt # typeNodes elt"
| "typeNodes e = [e]"

text \<open>The test of lines 147 to 153 on one field declaration: it has a name, and its
  first name is a target.\<close>

definition hasTarget :: "string list \<Rightarrow> field \<Rightarrow> bool" where
  "hasTarget targets f =
     (case Field_Names f of
        [] \<Rightarrow> False
      | fieldName # _ \<Rightarrow> containsTargetField fieldName targets)"

text \<open>A field declaration cut down to its first name.\<close>

definition firstNameOnly :: "field \<Rightarrow> field" where
  "firstNameOnly f = Field (take 1 (Field_Names f)) (Field_Type f)"

text \<open>The guard of line 73: a type declaration with a doc comment.\<close>

definition eligible :: "genDecl \<Rightarrow> bool" where
  "eligible g = (Tok g = token_TYPE \<and> Doc g \<noteq> None)"

text \<open>An import literal without its first and last byte.\<close>

definition unquoted :: "string \<Rightarrow> string" where
  "unquoted v = take (length v - 2) (drop 1 v)"

text \<open>A path element that \<open>filepath.Clean\<close> keeps as it is.\<close>

definition plainElement :: "string \<Rightarrow> bool" where
  "plainElement c = (c \<noteq> [] \<and> CHR ''/'' \<notin> set c \<and> c \<noteq> ''.'' \<and> c \<noteq> ''..'')"

text \<open>The companion file of \<open>foo.go\<close> in \<open>dir\<close>, as the generated file contract names it.\<close>

definition companionPath :: "string \<Rightarrow> string \<Rightarrow> string" where
  "companionPath dir foo = dir @ ''/'' @ foo @ ''_setters.go''"

text \<open>A string the HTML escaper leaves as it is: it has none of the seven bytes
  NUL, \<open>"\<close>, \<open>&\<close>, \<open>'\<close>, \<open>+\<close>, \<open><\<close>, \<open>>\<close>.  Go identifiers never have one; of import paths
  the parser accepts, only those with a \<open>+\<close> do.\<close>

definition htmlSafe :: "string \<Rightarrow> bool" where
  "htmlSafe s = list_all (\<lambda>c. htmlEscapeChar c = [c]) s"

definition safeSetter :: "setter \<Rightarrow> bool" where
  "safeSetter s = (htmlSafe (StructName s) \<and> htmlSafe (FieldName s) \<and> htmlSafe (FieldType s))"

text \<open>The generated file as the contract of the specification words it: one method
  \<open>func (s *Type) SetField(v FieldType) { s.Field = v }\<close> per descriptor, one quoted path
  per import, the package clause first.  Blank lines are as the template leaves them.\<close>

definition companionMethod :: "setter \<Rightarrow> string" where
  "companionMethod s =
     ''func (s *'' @ StructName s @ '') Set'' @ FieldName s @ ''(v '' @ FieldType s @ '') {'' @ nl
       @ tab @ ''s.'' @ FieldName s @ '' = v'' @ nl
       @ ''}''"

definition companionImport :: "string \<Rightarrow> string" where
  "companionImport p = tab @ dq @ p @ dq"

definition companionText :: "string \<Rightarrow> string list \<Rightarrow> setter list \<Rightarrow> string" where
  "companionText pkgName imps setters =
     nl @ ''package '' @ pkgName @ nl
       @ nl
       @ ''import ('' @ nl
       @ concat (map (\<lambda>p. nl @ companionImport p @ nl) imps)
       @ nl @ '')'' @ nl
       @ nl
       @ concat (map (\<lambda>s. nl @ companionMethod s @ nl) setters)
       @ nl"

text \<open>A printed type refers to an import path the way lines 156 to 158 look it up: it
  has a \<open>.\<close>, and the text before its first \<open>.\<close> is the last element of the path.  An
  import path is referenced when the type of some descriptor refers to it.\<close>

definition qualifies :: "string \<Rightarrow> string \<Rightarrow> bool" where
  "qualifies fieldType p =
     (strings_Contains fieldType (CHR ''.'') \<and>
      (case strings_Split fieldType (CHR ''.'') of
         [] \<Rightarrow> False
       | q # _ \<Rightarrow> q = filepath_Base p))"

definition referenced :: "setter list \<Rightarrow> string \<Rightarrow> bool" where
  "referenced setters p = list_ex (\<lambda>s. qualifies (FieldType s) p) setters"

text \<open>What Go guarantees of a \<open>range\<close> over a map: every entry is visited once.\<close>

definition rangesOnce :: "env \<Rightarrow> importsMap \<Rightarrow> bool" where
  "rangesOnce e m = (distinct (rangeOrder e m) \<and> set (rangeOrder e m) = set m)"

text \<open>The invariant of the synthesis loops, for one entry of \<open>importsMap\<close>.\<close>

definition entryOk :: "string list \<Rightarrow> setter list \<Rightarrow> string \<times> usedImport \<Rightarrow> bool" where
  "entryOk imps setters e =
     (pkg (snd e) \<in> set imps \<and> fst e = filepath_Base (pkg (snd e))
      \<and> (used (snd e) \<longrightarrow> referenced setters (pkg (snd e))))"

section \<open>Inputs for the examples\<close>

definition timeT :: expr where
  "timeT = SelectorExpr (Ident ''time'') ''Time''"

text \<open>The tree of \<open>example/example_v1.go\<close>.\<close>

definition exampleStruct :: typeSpec where
  "exampleStruct =
     TypeSpec ''example''
       (StructType
          [Field [''Name''] (Ident ''string''),
           Field [''CreatedAt''] timeT,
           Field [''UpdatedAt''] timeT])"

definition exampleFile :: astFile where
  "exampleFile =
     \<lparr> File_Name = ''example'',
       File_Imports = [dq @ ''log'' @ dq, dq @ ''time'' @ dq],
       File_GenDecls =
         [\<lparr> Doc = None, Tok = token_IMPORT,
            Specs = [ImportSpecNode (dq @ ''log'' @ dq), ImportSpecNode (dq @ ''time'' @ dq)] \<rparr>,
          \<lparr> Doc = Some [''//gen:setters''], Tok = token_TYPE,
            Specs = [TypeSpecNode exampleStruct] \<rparr>] \<rparr>"

text \<open>An environment for the examples: the formatter returns its input, every write
  succeeds, the map is ranged over in the order given, every file parses to \<open>tree\<close>.\<close>

definition plainEnv :: "astFile \<Rightarrow> env" where
  "plainEnv tree =
     \<lparr> format_Source = Inr, writeFails = (\<lambda>_. None), rangeOrder = id,
       parser_ParseFile = (\<lambda>_ _. Inr tree) \<rparr>"

text \<open>A unit whose only struct has a callback field among its targets:
  \<open>type hooked struct { CreatedAt func() }\<close> under the marker.\<close>

definition hookedFile :: astFile where
  "hookedFile =
     \<lparr> File_Name = ''hooks'',
       File_Imports = [],
       File_GenDecls =
         [\<lparr> Doc = Some [''//gen:setters''], Tok = token_TYPE,
            Specs = [TypeSpecNode
                       (TypeSpec ''hooked'' (StructType [Field [''CreatedAt''] (FuncType [] [])]))] \<rparr>] \<rparr>"

definition hookedUnit :: targetStructs where
  "hookedUnit =
     \<lparr> path = ''/w'', filename = ''hooks.go'', packageName = ''hooks'', imports_list = [],
       structs = [TypeSpec ''hooked'' (StructType [Field [''CreatedAt''] (FuncType [] [])])] \<rparr>"

text \<open>A unit with a marked struct that has no target field:
  \<open>type named struct { Name string }\<close>, importing \<open>log\<close>.\<close>

definition namedFile :: astFile where
  "namedFile =
     \<lparr> File_Name = ''named'',
       File_Imports = [dq @ ''log'' @ dq],
       File_GenDecls =
         [\<lparr> Doc = None, Tok = token_IMPORT, Specs = [ImportSpecNode (dq @ ''log'' @ dq)] \<rparr>,
          \<lparr> Doc = Some [''//gen:setters''], Tok = token_TYPE,
            Specs = [TypeSpecNode
                       (TypeSpec ''named'' (StructType [Field [''Name''] (Ident ''string'')]))] \<rparr>] \<rparr>"

definition namedUnit :: targetStructs where
  "namedUnit =
     \<lparr> path = ''/w'', filename = ''named.go'', packageName = ''named'', imports_list = [''log''],
       structs = [TypeSpec ''named'' (StructType [Field [''Name''] (Ident ''string'')])] \<rparr>"

text \<open>The fields of \<open>struct { time.Time; CreatedAt, UpdatedAt time.Time }\<close>: an embedded
  field, then one declaration with two names.\<close>

definition sharedFields :: "field list" where
  "sharedFields = [Field [] timeT, Field [''CreatedAt'', ''UpdatedAt''] timeT]"

text \<open>Two annotated groups in one file:
  \<open>//gen:setters type A struct { CreatedAt time.Time }\<close> and
  \<open>//gen:setters type B struct { UpdatedAt time.Time }\<close>.\<close>

definition structA :: typeSpec where
  "structA = TypeSpec ''A'' (StructType [Field [''CreatedAt''] timeT])"

definition structB :: typeSpec where
  "structB = TypeSpec ''B'' (StructType [Field [''UpdatedAt''] timeT])"

definition twoGroupsFile :: astFile where
  "twoGroupsFile =
     \<lparr> File_Name = ''model'',
       File_Imports = [dq @ ''time'' @ dq],
       File_GenDecls =
         [\<lparr> Doc = None, Tok = token_IMPORT, Specs = [ImportSpecNode (dq @ ''time'' @ dq)] \<rparr>,
          \<lparr> Doc = Some [''//gen:setters''], Tok = token_TYPE, Specs = [TypeSpecNode structA] \<rparr>,
          \<lparr> Doc = Some [''//gen:setters''], Tok = token_TYPE, Specs = [TypeSpecNode structB] \<rparr>] \<rparr>"

text \<open>The same file with an ordinary doc comment on the second group instead of the
  marker.\<close>

definition markedThenPlainFile :: astFile where
  "markedThenPlainFile =
     \<lparr> File_Name = ''model'',
       File_Imports = [dq @ ''time'' @ dq],
       File_GenDecls =
         [\<lparr> Doc = None, Tok = token_IMPORT, Specs = [ImportSpecNode (dq @ ''time'' @ dq)] \<rparr>,
          \<lparr> Doc = Some [''//gen:setters''], Tok = token_TYPE, Specs = [TypeSpecNode structA] \<rparr>,
          \<lparr> Doc = Some [''// B is not annotated.''], Tok = token_TYPE, Specs = [TypeSpecNode structB] \<rparr>] \<rparr>"

text \<open>\<open>type P struct { CreatedAt *time.Time }\<close>, importing \<open>time\<close>.\<close>

definition pointerUnit :: targetStructs where
  "pointerUnit =
     \<lparr> path = ''/w'', filename = ''p.go'', packageName = ''model'', imports_list = [''time''],
       structs = [TypeSpec ''P'' (StructType [Field [''CreatedAt''] (StarExpr timeT)])] \<rparr>"

text \<open>\<open>type paired struct { CreatedAt, UpdatedAt time.Time }\<close>, importing \<open>time\<close>.\<close>

definition pairedUnit :: targetStructs where
  "pairedUnit =
     \<lparr> path = ''/w'', filename = ''paired.go'', packageName = ''model'', imports_list = [''time''],
       structs = [TypeSpec ''paired'' (StructType [Field [''CreatedAt'', ''UpdatedAt''] timeT])] \<rparr>"

text \<open>\<open>type row struct { CreatedAt time.Time; UpdatedAt sql.NullTime }\<close>, importing
  \<open>database/sql\<close> and \<open>time\<close>.\<close>

definition twoImportsUnit :: targetStructs where
  "twoImportsUnit =
     \<lparr> path = ''/w'', filename = ''row.go'', packageName = ''model'',
       imports_list = [''database/sql'', ''time''],
       structs = [TypeSpec ''row''
                    (StructType [Field [''CreatedAt''] timeT,
                                 Field [''UpdatedAt''] (SelectorExpr (Ident ''sql'') ''NullTime'')])] \<rparr>"

text \<open>The environment of the examples, except that the runtime walks the map from its
  last entry to its first.\<close>

definition reversingEnv :: "astFile \<Rightarrow> env" where
  "reversingEnv tree = (plainEnv tree) \<lparr> rangeOrder := rev \<rparr>"

text \<open>A file with an import and functions only: the import declaration is its only
  \<open>GenDecl\<close>.\<close>

definition funcsOnlyFile :: astFile where
  "funcsOnlyFile =
     \<lparr> File_Name = ''util'',
       File_Imports = [dq @ ''log'' @ dq],
       File_GenDecls =
         [\<lparr> Doc = None, Tok = token_IMPORT, Specs = [ImportSpecNode (dq @ ''log'' @ dq)] \<rparr>] \<rparr>"

text \<open>The unit of \<open>example/example_v1.go\<close>, found in the directory \<open>/w/example\<close>, and
  its two descriptors.\<close>

definition exampleUnit :: targetStructs where
  "exampleUnit =
     \<lparr> path = ''/w/example'', filename = ''example_v1.go'', packageName = ''example'',
       imports_list = [''log'', ''time''], structs = [exampleStruct] \<rparr>"

definition exampleSetters :: "setter list" where
  "exampleSetters =
     [\<lparr> StructName = ''example'', FieldName = ''CreatedAt'', FieldType = ''time.Time'' \<rparr>,
      \<lparr> StructName = ''example'', FieldName = ''UpdatedAt'', FieldType = ''time.Time'' \<rparr>]"

text \<open>\<open>type T struct { CreatedAt x.T }\<close>, importing \<open>example.com/a+b/x\<close>: an import path
  with a \<open>+\<close>, which the parser accepts.\<close>

definition plusUnit :: targetStructs where
  "plusUnit =
     \<lparr> path = ''/w'', filename = ''x.go'', packageName = ''model'',
       imports_list = [''example.com/a+b/x''],
       structs = [TypeSpec ''T''
                    (StructType [Field [''CreatedAt''] (SelectorExpr (Ident ''x'') ''T'')])] \<rparr>"

text \<open>The array type \<open>[2]int\<close>, the interface type \<open>interface { Foo() }\<close>, and the unit
  of \<open>type grid struct { CreatedAt [2]int }\<close>.\<close>

definition fixedArray :: expr where
  "fixedArray = ArrayType (Some (BasicLit ''2'')) (Ident ''int'')"

definition methodInterface :: expr where
  "methodInterface = InterfaceType [Field [''Foo''] (FuncType [] [])]"

definition gridUnit :: targetStructs where
  "gridUnit =
     \<lparr> path = ''/w'', filename = ''grid.go'', packageName = ''model'', imports_list = [],
       structs = [TypeSpec ''grid'' (StructType [Field [''CreatedAt''] fixedArray])] \<rparr>"

section \<open>The type printer: properties\<close>

lemma unsupported_panics:
  "\<not> hasSwitchCase e \<Longrightarrow> getFiledTypeString e = Panics (unsupportedMessage e)"
  by (cases e) (simp_all add: hasSwitchCase_def)

lemma printer_panics_node:
  "getFiledTypeString e = Panics m \<Longrightarrow>
     \<exists>x. x \<in> set (typeNodes e) \<and> \<not> hasSwitchCase x \<and> m = unsupportedMessage x"
  by (induction e arbitrary: m rule: getFiledTypeString.induct)
     (auto simp: hasSwitchCase_def split: outcome.splits)

lemma node_panics:
  "x \<in> set (typeNodes e) \<Longrightarrow> \<not> hasSwitchCase x \<Longrightarrow> \<exists>m. getFiledTypeString e = Panics m"
  by (induction e rule: getFiledTypeString.induct)
     (auto simp: hasSwitchCase_def split: outcome.splits)

text \<open>
  Claim C4.  For every type expression that the rules of the specification's type printer
  give a text for (simple name, pointer, qualified name, slice, map, empty interface,
  variadic, and channel with the literal \<open>chann\<close> and a space), \<open>getFiledTypeString\<close>
  returns exactly that text.
\<close>

theorem getFiledTypeString_refines_printer:
  "printer e = Some s \<Longrightarrow> getFiledTypeString e = Returns s"
  by (induction e arbitrary: s rule: printer.induct) (auto split: option.splits)

theorem getFiledTypeString_refines_printer_witness:
  "printer (MapType (Ident ''string'') (ArrayType None (ChanType (StarExpr timeT))))
     = Some ''map[string][]chann *time.Time''
   \<and> getFiledTypeString (MapType (Ident ''string'') (ArrayType None (ChanType (StarExpr timeT))))
     = Returns ''map[string][]chann *time.Time''"
  using getFiledTypeString_refines_printer
          [of "MapType (Ident ''string'') (ArrayType None (ChanType (StarExpr timeT)))"
              "''map[string][]chann *time.Time''"]
  by (simp add: timeT_def)

section \<open>The synthesizer: properties\<close>

lemma splitOn_not_Nil: "splitOn c s \<noteq> []"
  by (induction s) (auto split: list.splits)

lemma markImport_Returns: "\<exists>m'. markImport ft m = Returns m'"
  using splitOn_not_Nil[of "CHR ''.''" ft]
  by (auto simp: markImport_def strings_Split_def split: list.splits option.splits)

lemma fieldLoop_Panics_form:
  "fieldLoop targets sname flds st = Panics msg \<Longrightarrow>
     \<exists>y. \<not> hasSwitchCase y \<and> msg = unsupportedMessage y"
proof (induction flds arbitrary: st)
  case Nil
  then show ?case by simp
next
  case (Cons f flds)
  obtain m setters where st: "st = (m, setters)" by (cases st)
  show ?case
  proof (cases "hasTarget targets f")
    case False
    with Cons st show ?thesis
      by (auto simp: hasTarget_def split: list.splits)
  next
    case True
    then obtain n ns where n: "Field_Names f = n # ns" "containsTargetField n targets"
      by (auto simp: hasTarget_def split: list.splits)
    show ?thesis
    proof (cases "getFiledTypeString (Field_Type f)")
      case (Panics m0)
      with Cons.prems st n have "msg = m0" by simp
      with Panics printer_panics_node show ?thesis by blast
    next
      case (Returns ft)
      obtain m' where "markImport ft m = Returns m'"
        using markImport_Returns by blast
      with Cons st n Returns show ?thesis by auto
    qed
  qed
qed

lemma fieldLoop_panics_if:
  "f \<in> set flds \<Longrightarrow> hasTarget targets f \<Longrightarrow> getFiledTypeString (Field_Type f) = Panics m0 \<Longrightarrow>
     \<exists>msg. fieldLoop targets sname flds st = Panics msg"
proof (induction flds arbitrary: st)
  case Nil
  then show ?case by simp
next
  case (Cons g flds)
  obtain m setters where st: "st = (m, setters)" by (cases st)
  show ?case
  proof (cases "g = f")
    case True
    with Cons.prems st show ?thesis
      by (auto simp: hasTarget_def split: list.splits)
  next
    case False
    with Cons.prems have "f \<in> set flds" by simp
    from Cons.IH[OF this Cons.prems(2,3)] have ih: "\<And>st'. \<exists>msg. fieldLoop targets sname flds st' = Panics msg" .
    show ?thesis
    proof (cases "Field_Names g")
      case Nil
      with st ih show ?thesis by simp
    next
      case (Cons n ns)
      with st ih show ?thesis
        by (auto split: outcome.splits)
    qed
  qed
qed

lemma structLoop_Panics_form:
  "structLoop targets ss st = Panics msg \<Longrightarrow>
     \<exists>y. \<not> hasSwitchCase y \<and> msg = unsupportedMessage y"
proof (induction ss arbitrary: st)
  case Nil
  then show ?case by simp
next
  case (Cons s ss)
  then show ?case
    by (cases "Spec_Type s") (auto split: outcome.splits dest: fieldLoop_Panics_form)
qed

lemma structLoop_panics_if:
  "s \<in> set ss \<Longrightarrow> Spec_Type s = StructType flds \<Longrightarrow> f \<in> set flds \<Longrightarrow> hasTarget targets f \<Longrightarrow>
   getFiledTypeString (Field_Type f) = Panics m0 \<Longrightarrow>
     \<exists>msg. structLoop targets ss st = Panics msg"
proof (induction ss arbitrary: st)
  case Nil
  then show ?case by simp
next
  case (Cons a ss)
  show ?case
  proof (cases "a = s")
    case True
    obtain r where "fieldLoop targets (Spec_Name s) flds st = Panics r"
      using fieldLoop_panics_if[OF Cons.prems(3,4,5)] by blast
    with True Cons.prems(2) show ?thesis by simp
  next
    case False
    with Cons.prems have "s \<in> set ss" by simp
    from Cons.IH[OF this Cons.prems(2-5)] have ih: "\<And>st'. \<exists>msg. structLoop targets ss st' = Panics msg" .
    then show ?thesis
      by (cases "Spec_Type a") (auto split: outcome.splits)
  qed
qed

text \<open>
  The default branch.  A node the type switch has no case for makes the type printer
  panic with the message naming its type; it returns no error value.  When such a node
  occurs in the type of a field of an annotated struct whose first name is a target,
  \<open>generateTargetSetter\<close> panics before any file is written, and the panic leaves the
  loop of \<open>main\<close>: nothing further is done for this file or the files after it.
\<close>

lemma default_branch_aborts:
  assumes "s \<in> set (structs t)" and "Spec_Type s = StructType flds" and "f \<in> set flds"
    and "hasTarget targetFields f"
    and "x \<in> set (typeNodes (Field_Type f))" and "\<not> hasSwitchCase x"
    and "searchTargetStructs file (parser_ParseFile e file (fs file)) = Returns (Inr t)"
  shows "getFiledTypeString x = Panics (unsupportedMessage x)
       \<and> (\<exists>y. \<not> hasSwitchCase y
             \<and> generateTargetSetter e t targetFields fs = (Panics (unsupportedMessage y), fs)
             \<and> mainLoop e (file # rest) (fs, logged) = (Panics (unsupportedMessage y), fs, logged))"
proof -
  obtain m0 where "getFiledTypeString (Field_Type f) = Panics m0"
    using node_panics[OF assms(5,6)] by blast
  then obtain msg where msg: "structLoop targetFields (structs t) (importsMapLoop (imports_list t) [], []) = Panics msg"
    using structLoop_panics_if[OF assms(1-4)] by blast
  then obtain y where y: "\<not> hasSwitchCase y" "msg = unsupportedMessage y"
    using structLoop_Panics_form by blast
  have g: "generateTargetSetter e t targetFields fs = (Panics msg, fs)"
    using msg by (simp add: generateTargetSetter_def)
  have "mainLoop e (file # rest) (fs, logged) = (Panics msg, fs, logged)"
    using g assms(7) by simp
  with g y unsupported_panics[OF assms(6)] show ?thesis by blast
qed

lemma default_branch_aborts_example:
  "hasTarget targetFields (Field [''CreatedAt''] (FuncType [] []))
   \<and> \<not> hasSwitchCase (FuncType [] [])
   \<and> searchTargetStructs ''/w/hooks.go''
         (parser_ParseFile (plainEnv hookedFile) ''/w/hooks.go'' (Map.empty ''/w/hooks.go''))
       = Returns (Inr hookedUnit)
   \<and> getFiledTypeString (FuncType [] []) = Panics (unsupportedMessage (FuncType [] []))
   \<and> (\<exists>y. \<not> hasSwitchCase y
          \<and> generateTargetSetter (plainEnv hookedFile) hookedUnit targetFields Map.empty
              = (Panics (unsupportedMessage y), Map.empty)
          \<and> mainLoop (plainEnv hookedFile) [''/w/hooks.go'', ''/w/later.go''] (Map.empty, [])
              = (Panics (unsupportedMessage y), Map.empty, []))"
proof -
  let ?f = "Field [''CreatedAt''] (FuncType [] [])"
  let ?s = "TypeSpec ''hooked'' (StructType [?f])"
  have h1: "?s \<in> set (structs hookedUnit)" by (simp add: hookedUnit_def)
  have h2: "Spec_Type ?s = StructType [?f]" by simp
  have h3: "?f \<in> set [?f]" by simp
  have h4: "hasTarget targetFields ?f" by (simp add: hasTarget_def targetFields_def)
  have h5: "FuncType [] [] \<in> set (typeNodes (Field_Type ?f))" by simp
  have h6: "\<not> hasSwitchCase (FuncType [] [])" by (simp add: hasSwitchCase_def)
  have h7: "searchTargetStructs ''/w/hooks.go''
         (parser_ParseFile (plainEnv hookedFile) ''/w/hooks.go'' (Map.empty ''/w/hooks.go''))
       = Returns (Inr hookedUnit)"
    by code_simp
  from default_branch_aborts[OF h1 h2 h3 h4 h5 h6 h7, where rest = "[''/w/later.go'']" and logged = "[]"] h4 h6 h7
  show ?thesis by simp
qed

text \<open>
  Claim C10.  A field declaration with an empty name list makes no descriptor: removing
  all such declarations changes nothing in what the field loop computes.  Of a
  declaration with several names only the first is looked at: cutting every declaration
  down to its first name changes nothing either.
\<close>

theorem embedded_and_later_names_ignored:
  "fieldLoop targets sname (filter (\<lambda>f. Field_Names f \<noteq> []) flds) st = fieldLoop targets sname flds st
   \<and> fieldLoop targets sname (map firstNameOnly flds) st = fieldLoop targets sname flds st"
proof
  show "fieldLoop targets sname (filter (\<lambda>f. Field_Names f \<noteq> []) flds) st = fieldLoop targets sname flds st"
  proof (induction flds arbitrary: st)
    case Nil
    show ?case by simp
  next
    case (Cons f flds)
    obtain m setters where st: "st = (m, setters)" by (cases st)
    show ?case using Cons st
      by (cases "Field_Names f") (auto split: outcome.splits)
  qed
next
  show "fieldLoop targets sname (map firstNameOnly flds) st = fieldLoop targets sname flds st"
  proof (induction flds arbitrary: st)
    case Nil
    show ?case by simp
  next
    case (Cons f flds)
    obtain m setters where st: "st = (m, setters)" by (cases st)
    show ?case using Cons st
      by (cases "Field_Names f") (auto simp: firstNameOnly_def split: outcome.splits)
  qed
qed

theorem embedded_and_later_names_ignored_witness:
  "fieldLoop targetFields ''T'' (filter (\<lambda>f. Field_Names f \<noteq> []) sharedFields) ([], [])
     = fieldLoop targetFields ''T'' sharedFields ([], [])
   \<and> fieldLoop targetFields ''T'' (map firstNameOnly sharedFields) ([], [])
     = fieldLoop targetFields ''T'' sharedFields ([], [])
   \<and> fieldLoop targetFields ''T'' sharedFields ([], [])
     = Returns ([], [\<lparr> StructName = ''T'', FieldName = ''CreatedAt'', FieldType = ''time.Time'' \<rparr>])"
proof -
  have "fieldLoop targetFields ''T'' sharedFields ([], [])
     = Returns ([], [\<lparr> StructName = ''T'', FieldName = ''CreatedAt'', FieldType = ''time.Time'' \<rparr>])"
    by code_simp
  with embedded_and_later_names_ignored[of targetFields "''T''" sharedFields "([], [])"]
  show ?thesis by simp
qed

text \<open>
  Claim C6.  When the loops over the structs and their fields end with no setter,
  \<open>generateTargetSetter\<close> returns nil and leaves the files as they were: nothing is
  rendered, formatted or written.  The loop of \<open>main\<close> logs nothing for the file and goes
  on to the next one.
\<close>

theorem nothing_to_generate:
  assumes "structLoop targetFields (structs t) (importsMapLoop (imports_list t) [], [])
             = Returns (m, [])"
    and "searchTargetStructs file (parser_ParseFile e file (fs file)) = Returns (Inr t)"
  shows "generateTargetSetter e t targetFields fs = (Returns None, fs)
       \<and> mainLoop e (file # rest) (fs, logged) = mainLoop e rest (fs, logged)"
proof -
  have g: "generateTargetSetter e t targetFields fs = (Returns None, fs)"
    using assms(1) by (simp add: generateTargetSetter_def)
  have "mainLoop e (file # rest) (fs, logged) = mainLoop e rest (fs, logged)"
    using assms(2) g by simp
  with g show ?thesis by simp
qed

theorem nothing_to_generate_witness:
  "structLoop targetFields (structs namedUnit) (importsMapLoop (imports_list namedUnit) [], [])
     = Returns ([(''log'', \<lparr> pkg = ''log'', used = False \<rparr>)], [])
   \<and> searchTargetStructs ''/w/named.go''
         (parser_ParseFile (plainEnv namedFile) ''/w/named.go'' (Map.empty ''/w/named.go''))
       = Returns (Inr namedUnit)
   \<and> generateTargetSetter (plainEnv namedFile) namedUnit targetFields Map.empty
     = (Returns None, Map.empty)
   \<and> mainLoop (plainEnv namedFile) [''/w/named.go''] (Map.empty, [])
     = (Returns (), Map.empty, [''Successfully generated''])"
proof -
  have h: "structLoop targetFields (structs namedUnit) (importsMapLoop (imports_list namedUnit) [], [])
     = Returns ([(''log'', \<lparr> pkg = ''log'', used = False \<rparr>)], [])"
    by code_simp
  have s: "searchTargetStructs ''/w/named.go''
         (parser_ParseFile (plainEnv namedFile) ''/w/named.go'' (Map.empty ''/w/named.go''))
       = Returns (Inr namedUnit)"
    by code_simp
  from nothing_to_generate[OF h s, where rest = "[]" and logged = "[]"] h s
  show ?thesis by simp
qed

section \<open>The scanner: properties\<close>

text \<open>
  Claim C1 (evaluation).  With two annotated groups in one file the scanner returns the
  structs of the second group only: the callback assigns \<open>structs\<close> a fresh slice at
  every type declaration that has a doc comment.  When the later group has an ordinary
  doc comment, the structs of the annotated group before it are lost as well.
\<close>

theorem only_last_group_kept:
  "searchTargetStructs ''/w/model.go'' (Inr twoGroupsFile)
     = Returns (Inr \<lparr> path = ''/w'', filename = ''model.go'', packageName = ''model'',
                      imports_list = [''time''], structs = [structB] \<rparr>)
   \<and> searchTargetStructs ''/w/model.go'' (Inr markedThenPlainFile)
     = Returns (Inr \<lparr> path = ''/w'', filename = ''model.go'', packageName = ''model'',
                      imports_list = [''time''], structs = [] \<rparr>)"
  by code_simp

lemma importLoop_Returns:
  "list_all (\<lambda>v. 2 \<le> length v) vs \<Longrightarrow> importLoop vs acc = Returns (acc @ map unquoted vs)"
  by (induction vs arbitrary: acc) (simp_all add: unquote_def unquoted_def)

lemma visitGenDecl_Returns:
  assumes "list_all (\<lambda>v. 2 \<le> length v) (File_Imports node)"
  shows "\<exists>sts'. visitGenDecl node g (sts, imps)
           = Returns (sts', if eligible g then map unquoted (File_Imports node) else imps)"
  using importLoop_Returns[OF assms, of "[]"]
  by (auto simp: visitGenDecl_def eligible_def split: option.splits)

lemma inspect_Returns:
  assumes "list_all (\<lambda>v. 2 \<le> length v) (File_Imports node)"
  shows "\<exists>sts'. inspect node gs (sts, imps)
           = Returns (sts', if list_ex eligible gs then map unquoted (File_Imports node) else imps)"
proof (induction gs arbitrary: sts imps)
  case Nil
  show ?case by simp
next
  case (Cons g gs)
  obtain sts1 where v: "visitGenDecl node g (sts, imps)
           = Returns (sts1, if eligible g then map unquoted (File_Imports node) else imps)"
    using visitGenDecl_Returns[OF assms] by blast
  obtain sts2 where i: "inspect node gs (sts1, if eligible g then map unquoted (File_Imports node) else imps)
       = Returns (sts2, if list_ex eligible gs then map unquoted (File_Imports node)
                        else (if eligible g then map unquoted (File_Imports node) else imps))"
    using Cons.IH by blast
  show ?case using v i by auto
qed

text \<open>
  Claim C5, as stated, fails: a file that imports \<open>log\<close> and declares no type with a doc
  comment is scanned to a unit with an empty import list.
\<close>

theorem imports_not_recorded_without_type_doc:
  "File_Imports funcsOnlyFile = [dq @ ''log'' @ dq]
   \<and> searchTargetStructs ''/w/util.go'' (Inr funcsOnlyFile)
     = Returns (Inr \<lparr> path = ''/w'', filename = ''util.go'', packageName = ''util'',
                      imports_list = [], structs = [] \<rparr>)"
  by code_simp

text \<open>
  Claim C5, amended.  For every parsed file (whose import literals have their two
  quotes) the scanner returns a unit with the file's package name.  The unit holds the
  file's import paths, in order, when the file has at least one type declaration with a
  doc comment, marker or not, and no import path otherwise.
\<close>

theorem scanner_records_package_and_imports:
  assumes "list_all (\<lambda>v. 2 \<le> length v) (File_Imports node)"
  shows "\<exists>sts. searchTargetStructs fname (Inr node)
           = Returns (Inr \<lparr> path = filepath_Dir fname, filename = filepath_Base fname,
                            packageName = File_Name node,
                            imports_list = (if list_ex eligible (File_GenDecls node)
                                            then map unquoted (File_Imports node) else []),
                            structs = sts \<rparr>)"
proof -
  obtain sts where "inspect node (File_GenDecls node) ([], [])
     = Returns (sts, if list_ex eligible (File_GenDecls node) then map unquoted (File_Imports node) else [])"
    using inspect_Returns[OF assms] by blast
  then show ?thesis by (simp add: searchTargetStructs_def)
qed

theorem scanner_records_package_and_imports_witness:
  "list_all (\<lambda>v. 2 \<le> length v) (File_Imports exampleFile)
   \<and> list_ex eligible (File_GenDecls exampleFile)
   \<and> (\<exists>sts. searchTargetStructs ''/w/example/example_v1.go'' (Inr exampleFile)
           = Returns (Inr \<lparr> path = ''/w/example'', filename = ''example_v1.go'',
                            packageName = ''example'',
                            imports_list = [''log'', ''time''], structs = sts \<rparr>))"
proof -
  have h: "list_all (\<lambda>v. 2 \<le> length v) (File_Imports exampleFile)"
    by (simp add: exampleFile_def dq_def)
  have e1: "list_ex eligible (File_GenDecls exampleFile)"
    by (simp add: exampleFile_def eligible_def)
  have d: "filepath_Dir ''/w/example/example_v1.go'' = ''/w/example''" by code_simp
  have b: "filepath_Base ''/w/example/example_v1.go'' = ''example_v1.go''" by code_simp
  have u: "map unquoted (File_Imports exampleFile) = [''log'', ''time'']"
    by (simp add: exampleFile_def dq_def unquoted_def)
  have n: "File_Name exampleFile = ''example''" by (simp add: exampleFile_def)
  from scanner_records_package_and_imports[OF h, of "''/w/example/example_v1.go''"] h e1
  show ?thesis unfolding d b u n by simp
qed

section \<open>The generated file: evaluations\<close>

text \<open>
  Claim C2 (evaluation).  For a target field of type \<open>*time.Time\<close> the text before the
  first \<open>.\<close> is \<open>*time\<close>, which is no key of the map: the entry of \<open>time\<close> stays unmarked,
  and the file written has an empty import block under a setter that takes a
  \<open>*time.Time\<close>.
\<close>

theorem pointer_import_not_marked:
  "structLoop targetFields (structs pointerUnit) (importsMapLoop (imports_list pointerUnit) [], [])
     = Returns ([(''time'', \<lparr> pkg = ''time'', used = False \<rparr>)],
                [\<lparr> StructName = ''P'', FieldName = ''CreatedAt'', FieldType = ''*time.Time'' \<rparr>])
   \<and> fst (generateTargetSetter (plainEnv exampleFile) pointerUnit targetFields Map.empty)
     = Returns None
   \<and> snd (generateTargetSetter (plainEnv exampleFile) pointerUnit targetFields Map.empty)
         ''/w/p_setters.go''
     = Some (executeTemplate
               \<lparr> PackageName = ''model'', Imports = [],
                 Setters = [\<lparr> StructName = ''P'', FieldName = ''CreatedAt'',
                              FieldType = ''*time.Time'' \<rparr>] \<rparr>)"
  by code_simp

text \<open>
  Claim C3 (evaluation).  For \<open>CreatedAt, UpdatedAt time.Time\<close> declared together, only
  \<open>CreatedAt\<close> gets a descriptor, although \<open>UpdatedAt\<close> is a field of the struct and a
  member of \<open>targetFields\<close>.
\<close>

theorem second_name_gets_no_setter:
  "structLoop targetFields (structs pairedUnit) (importsMapLoop (imports_list pairedUnit) [], [])
     = Returns ([(''time'', \<lparr> pkg = ''time'', used = True \<rparr>)],
                [\<lparr> StructName = ''paired'', FieldName = ''CreatedAt'', FieldType = ''time.Time'' \<rparr>])"
  by code_simp

text \<open>
  Claim C7 (evaluation).  With two used imports the order of the import block is the
  order in which the map is walked: two runs on the same unit that differ only in that
  order hand different texts to the formatter, and write different files.
\<close>

theorem import_order_follows_map_order:
  "snd (generateTargetSetter (plainEnv exampleFile) twoImportsUnit targetFields Map.empty)
       ''/w/row_setters.go''
     = Some (executeTemplate
               \<lparr> PackageName = ''model'', Imports = [''database/sql'', ''time''],
                 Setters = [\<lparr> StructName = ''row'', FieldName = ''CreatedAt'',
                              FieldType = ''time.Time'' \<rparr>,
                            \<lparr> StructName = ''row'', FieldName = ''UpdatedAt'',
                              FieldType = ''sql.NullTime'' \<rparr>] \<rparr>)
   \<and> snd (generateTargetSetter (reversingEnv exampleFile) twoImportsUnit targetFields Map.empty)
       ''/w/row_setters.go''
     = Some (executeTemplate
               \<lparr> PackageName = ''model'', Imports = [''time'', ''database/sql''],
                 Setters = [\<lparr> StructName = ''row'', FieldName = ''CreatedAt'',
                              FieldType = ''time.Time'' \<rparr>,
                            \<lparr> StructName = ''row'', FieldName = ''UpdatedAt'',
                              FieldType = ''sql.NullTime'' \<rparr>] \<rparr>)
   \<and> snd (generateTargetSetter (plainEnv exampleFile) twoImportsUnit targetFields Map.empty)
         ''/w/row_setters.go''
       \<noteq> snd (generateTargetSetter (reversingEnv exampleFile) twoImportsUnit targetFields Map.empty)
           ''/w/row_setters.go''"
  by code_simp

text \<open>
  Claim C8 (evaluation).  The template is executed by \<open>html/template\<close>, which escapes
  every value it inserts.  For a unit that imports \<open>example.com/a+b/x\<close> and uses it in a
  target field, the import is marked used, and the import block of the file written
  lists \<open>example.com/a&#43;b/x\<close>, which is no import path of the unit.
\<close>

theorem plus_import_written_escaped:
  "structLoop targetFields (structs plusUnit) (importsMapLoop (imports_list plusUnit) [], [])
     = Returns ([(''x'', \<lparr> pkg = ''example.com/a+b/x'', used = True \<rparr>)],
                [\<lparr> StructName = ''T'', FieldName = ''CreatedAt'', FieldType = ''x.T'' \<rparr>])
   \<and> fst (generateTargetSetter (plainEnv exampleFile) plusUnit targetFields Map.empty)
     = Returns None
   \<and> snd (generateTargetSetter (plainEnv exampleFile) plusUnit targetFields Map.empty)
         ''/w/x_setters.go''
     = Some (companionText ''model'' [''example.com/a&#43;b/x'']
               [\<lparr> StructName = ''T'', FieldName = ''CreatedAt'', FieldType = ''x.T'' \<rparr>])
   \<and> ''example.com/a&#43;b/x'' \<notin> set (imports_list plusUnit)"
  by code_simp

text \<open>
  Claim C9 (evaluation).  An array type with a length and an interface type with methods
  are not among the kinds the rules of the type printer give a text for (\<open>printer\<close> gives
  none), yet \<open>getFiledTypeString\<close> does not fail on them: the cases of \<open>*ast.ArrayType\<close>
  and \<open>*ast.InterfaceType\<close> never look at the length or the methods and print a slice and
  the empty interface.  For a target field of type \<open>[2]int\<close> processing goes on, and the
  file written has a setter that takes a \<open>[]int\<close>.
\<close>

theorem fixed_array_printed_as_slice:
  "printer fixedArray = None
   \<and> getFiledTypeString fixedArray = Returns ''[]int''
   \<and> printer methodInterface = None
   \<and> getFiledTypeString methodInterface = Returns ''interface{}''
   \<and> fst (generateTargetSetter (plainEnv exampleFile) gridUnit targetFields Map.empty)
     = Returns None
   \<and> snd (generateTargetSetter (plainEnv exampleFile) gridUnit targetFields Map.empty)
         ''/w/grid_setters.go''
     = Some (companionText ''model'' []
               [\<lparr> StructName = ''grid'', FieldName = ''CreatedAt'', FieldType = ''[]int'' \<rparr>])"
  by code_simp

section \<open>The generated file: properties\<close>

lemma splitOn_append_sep: "splitOn c (a @ c # b) = splitOn c a @ splitOn c b"
proof (induction a)
  case Nil
  show ?case by simp
next
  case (Cons x a)
  obtain y ys where "splitOn c a = y # ys"
    using splitOn_not_Nil[of c a] by (cases "splitOn c a") auto
  with Cons show ?case by simp
qed

lemma splitOn_no_sep: "c \<notin> set s \<Longrightarrow> splitOn c s = [s]"
  by (induction s) auto

lemma joinWith_snoc: "es \<noteq> [] \<Longrightarrow> joinWith sep (es @ [x]) = joinWith sep es @ sep @ x"
  by (induction sep es rule: joinWith.induct) auto

lemma splitOn_joinWith:
  "es \<noteq> [] \<Longrightarrow> list_all (\<lambda>e. c \<notin> set e) es \<Longrightarrow> splitOn c (joinWith [c] es) = es"
proof (induction "[c]" es rule: joinWith.induct)
  case 1
  then show ?case by simp
next
  case (2 x)
  then show ?case by (simp add: splitOn_no_sep)
next
  case (3 x y ys)
  have "splitOn c (x @ c # joinWith [c] (y # ys)) = splitOn c x @ splitOn c (joinWith [c] (y # ys))"
    by (rule splitOn_append_sep)
  with 3 show ?case by (simp add: splitOn_no_sep)
qed

lemma foldl_cleanStep_plain:
  "list_all plainElement es \<Longrightarrow> foldl (cleanStep r) out es = out @ es"
  by (induction es arbitrary: out) (auto simp: cleanStep_def plainElement_def)

lemma Clean_rooted_plain:
  assumes "es \<noteq> []" and "list_all plainElement es"
  shows "filepath_Clean (''/'' @ joinWith ''/'' es) = ''/'' @ joinWith ''/'' es"
proof -
  have nosep: "list_all (\<lambda>e. CHR ''/'' \<notin> set e) es"
    using assms(2) by (induction es) (auto simp: plainElement_def)
  have "splitOn (CHR ''/'') (''/'' @ joinWith ''/'' es) = [] # es"
    using splitOn_joinWith[OF assms(1) nosep] by simp
  moreover have "foldl (cleanStep True) [] ([] # es) = es"
    using foldl_cleanStep_plain[OF assms(2), of True "[]"] by (simp add: cleanStep_def)
  ultimately show ?thesis
    by (simp add: filepath_Clean_def Let_def)
qed

lemma Join_dir_name:
  assumes "comps \<noteq> []" and "list_all plainElement comps" and "plainElement name"
  shows "filepath_Join [''/'' @ joinWith ''/'' comps, name] = (''/'' @ joinWith ''/'' comps) @ ''/'' @ name"
proof -
  have "filepath_Clean (''/'' @ joinWith ''/'' (comps @ [name])) = ''/'' @ joinWith ''/'' (comps @ [name])"
    using assms by (intro Clean_rooted_plain) auto
  then show ?thesis
    using assms(1) by (simp add: filepath_Join_def joinWith_snoc)
qed

lemma plain_setters_name: "CHR ''/'' \<notin> set foo \<Longrightarrow> plainElement (foo @ ''_setters.go'')"
  by (auto simp: plainElement_def append_eq_Cons_conv)

lemma TrimSuffix_go: "strings_TrimSuffix (foo @ ''.go'') ''.go'' = foo"
  by (simp add: strings_TrimSuffix_def strings_HasSuffix_def)

lemma outputPath_eq:
  assumes "comps \<noteq> []" and "list_all plainElement comps" and "CHR ''/'' \<notin> set foo"
  shows "filepath_Join [''/'' @ joinWith ''/'' comps, strings_TrimSuffix (foo @ ''.go'') ''.go'' @ ''_setters.go'']
         = companionPath (''/'' @ joinWith ''/'' comps) foo"
  using Join_dir_name[OF assms(1,2) plain_setters_name[OF assms(3)]]
  by (simp add: TrimSuffix_go companionPath_def)

lemma htmlEscaper_safe: "htmlSafe s \<Longrightarrow> htmlEscaper s = s"
  by (induction s) (simp_all add: htmlSafe_def htmlEscaper_def)

lemma importBody_safe: "htmlSafe p \<Longrightarrow> importBody p = nl @ companionImport p @ nl"
  by (simp add: importBody_def companionImport_def htmlEscaper_safe)

lemma setterBody_safe: "safeSetter s \<Longrightarrow> setterBody s = nl @ companionMethod s @ nl"
  by (simp add: setterBody_def companionMethod_def safeSetter_def htmlEscaper_safe)

lemma executeTemplate_safe:
  assumes "htmlSafe pkgName" and "list_all htmlSafe imps" and "list_all safeSetter setters"
  shows "executeTemplate \<lparr> PackageName = pkgName, Imports = imps, Setters = setters \<rparr>
         = companionText pkgName imps setters"
proof -
  have i: "map importBody imps = map (\<lambda>p. nl @ companionImport p @ nl) imps"
    using assms(2) by (induction imps) (simp_all add: importBody_safe)
  have s: "map setterBody setters = map (\<lambda>s. nl @ companionMethod s @ nl) setters"
    using assms(3) by (induction setters) (simp_all add: setterBody_safe)
  show ?thesis
    by (simp add: executeTemplate_def companionText_def htmlEscaper_safe[OF assms(1)] i s)
qed

lemma set_update_subset: "set (AList.update k v m) \<subseteq> insert (k, v) (set m)"
  by (induction m) auto

lemma set_map_entry_subset:
  "set (AList.map_entry k f m) \<subseteq> set m \<union> {(k, f v) | v. (k, v) \<in> set m}"
  by (induction m) auto

lemma referenced_append: "referenced setters p \<Longrightarrow> referenced (setters @ extra) p"
  by (simp add: referenced_def list_ex_iff) blast

lemma entryOk_append: "entryOk imps setters e \<Longrightarrow> entryOk imps (setters @ extra) e"
  by (auto simp: entryOk_def referenced_append)

lemma importsMapLoop_ok:
  "set ps \<subseteq> set imps \<Longrightarrow> \<forall>e \<in> set m. entryOk imps [] e \<Longrightarrow>
     \<forall>e \<in> set (importsMapLoop ps m). entryOk imps [] e"
proof (induction ps arbitrary: m)
  case Nil
  then show ?case by simp
next
  case (Cons p ps)
  have "\<forall>e \<in> set (AList.update (filepath_Base p) \<lparr> pkg = p, used = False \<rparr> m). entryOk imps [] e"
  proof
    fix e assume "e \<in> set (AList.update (filepath_Base p) \<lparr> pkg = p, used = False \<rparr> m)"
    then have "e = (filepath_Base p, \<lparr> pkg = p, used = False \<rparr>) \<or> e \<in> set m"
      using set_update_subset by fastforce
    then show "entryOk imps [] e"
      using Cons.prems by (auto simp: entryOk_def)
  qed
  with Cons show ?case by simp
qed

lemma markImport_ok:
  assumes "markImport ft m = Returns m'" and "\<forall>e \<in> set m. entryOk imps setters e"
    and "FieldType s = ft"
  shows "\<forall>e \<in> set m'. entryOk imps (setters @ [s]) e"
proof (cases "strings_Contains ft (CHR ''.'')")
  case False
  with assms(1) have "m' = m" by (simp add: markImport_def)
  with assms(2) show ?thesis by (simp add: entryOk_append)
next
  case True
  obtain q rest where q: "strings_Split ft (CHR ''.'') = q # rest"
    using splitOn_not_Nil[of "CHR ''.''" ft]
    by (cases "strings_Split ft (CHR ''.'')") (auto simp: strings_Split_def)
  show ?thesis
  proof (cases "map_of m q")
    case None
    with assms(1) True q have "m' = m" by (simp add: markImport_def)
    with assms(2) show ?thesis by (simp add: entryOk_append)
  next
    case (Some u0)
    with assms(1) True q have m': "m' = AList.map_entry q (\<lambda>u. u\<lparr> used := True \<rparr>) m"
      by (simp add: markImport_def)
    show ?thesis
    proof
      fix e assume "e \<in> set m'"
      then consider "e \<in> set m" | u where "e = (q, u\<lparr> used := True \<rparr>)" "(q, u) \<in> set m"
        using set_map_entry_subset[of q "\<lambda>u. u\<lparr> used := True \<rparr>" m] m' by fastforce
      then show "entryOk imps (setters @ [s]) e"
      proof cases
        case 1
        with assms(2) show ?thesis by (simp add: entryOk_append)
      next
        case 2
        from assms(2) 2(2) have ok: "entryOk imps setters (q, u)" by blast
        then have "q = filepath_Base (pkg u)" by (simp add: entryOk_def)
        then have "qualifies ft (pkg u)"
          using True q by (simp add: qualifies_def)
        then have "referenced (setters @ [s]) (pkg u)"
          using assms(3) by (simp add: referenced_def)
        with ok 2(1) show ?thesis by (simp add: entryOk_def)
      qed
    qed
  qed
qed

lemma fieldLoop_ok:
  "fieldLoop targets sname flds (m, setters) = Returns (m', setters') \<Longrightarrow>
   \<forall>e \<in> set m. entryOk imps setters e \<Longrightarrow>
     \<forall>e \<in> set m'. entryOk imps setters' e"
proof (induction flds arbitrary: m setters)
  case Nil
  then show ?case by simp
next
  case (Cons f flds)
  show ?case
  proof (cases "hasTarget targets f")
    case False
    with Cons.prems(1) have "fieldLoop targets sname flds (m, setters) = Returns (m', setters')"
      by (auto simp: hasTarget_def split: list.splits)
    from Cons.IH[OF this Cons.prems(2)] show ?thesis .
  next
    case True
    then obtain n ns where n: "Field_Names f = n # ns" "containsTargetField n targets"
      by (auto simp: hasTarget_def split: list.splits)
    from Cons.prems(1) n obtain ft where ft: "getFiledTypeString (Field_Type f) = Returns ft"
      by (cases "getFiledTypeString (Field_Type f)") auto
    obtain m1 where m1: "markImport ft m = Returns m1"
      using markImport_Returns by blast
    let ?s = "\<lparr> StructName = sname, FieldName = n, FieldType = ft \<rparr>"
    from Cons.prems(1) n ft m1
    have rest: "fieldLoop targets sname flds (m1, setters @ [?s]) = Returns (m', setters')"
      by simp
    have "\<forall>e \<in> set m1. entryOk imps (setters @ [?s]) e"
      using markImport_ok[OF m1 Cons.prems(2)] by simp
    from Cons.IH[OF rest this] show ?thesis .
  qed
qed

lemma structLoop_ok:
  "structLoop targets ss (m, setters) = Returns (m', setters') \<Longrightarrow>
   \<forall>e \<in> set m. entryOk imps setters e \<Longrightarrow>
     \<forall>e \<in> set m'. entryOk imps setters' e"
proof (induction ss arbitrary: m setters)
  case Nil
  then show ?case by simp
next
  case (Cons s ss)
  show ?case
  proof (cases "Spec_Type s")
    case (StructType flds)
    with Cons.prems(1) obtain m1 setters1 where
      f: "fieldLoop targets (Spec_Name s) flds (m, setters) = Returns (m1, setters1)"
      and r: "structLoop targets ss (m1, setters1) = Returns (m', setters')"
      by (auto split: outcome.splits)
    from Cons.IH[OF r fieldLoop_ok[OF f Cons.prems(2)]] show ?thesis .
  qed (use Cons in auto)
qed

lemma set_usedLoop:
  "set (usedLoop al acc) = set acc \<union> {pkg u | k u. (k, u) \<in> set al \<and> used u}"
  by (induction al acc rule: usedLoop.induct) auto

text \<open>
  The companion file where the escaper changes nothing.  Take a unit \<open>foo.go\<close> in an
  absolute directory \<open>dir\<close> whose synthesis ends with at least one descriptor, whose names
  and import paths the HTML escaper of the template leaves as they are, and for which
  formatting and writing succeed.  Then \<open>generateTargetSetter\<close> returns nil and the only
  file it changes is \<open>dir/foo_setters.go\<close>, which holds what \<open>format.Source\<close> made of the
  rendered text; the rendered text is the package clause of the unit's package name, an
  import block, and one method of the contract's shape per descriptor, in order; and
  every path of the import block is an import of the unit whose last element is the text
  before the first \<open>.\<close> of some descriptor's type.
\<close>

lemma companion_file_unescaped:
  assumes synth: "structLoop targets (structs t) (importsMapLoop (imports_list t) [], [])
                    = Returns (m, setters)"
    and some: "setters \<noteq> []"
    and once: "rangesOnce e m"
    and safe: "htmlSafe (packageName t)" "list_all htmlSafe (imports_list t)"
              "list_all safeSetter setters"
    and formats: "format_Source e
                    (executeTemplate \<lparr> PackageName = packageName t,
                                       Imports = usedLoop (rangeOrder e m) [],
                                       Setters = setters \<rparr>) = Inr formatted"
    and dir: "path t = ''/'' @ joinWith ''/'' comps" "comps \<noteq> []" "list_all plainElement comps"
    and named: "filename t = foo @ ''.go''" "CHR ''/'' \<notin> set foo"
    and writes: "writeFails e (companionPath (path t) foo) = None"
  shows "generateTargetSetter e t targets fs
           = (Returns None, fs(companionPath (path t) foo \<mapsto> formatted))
       \<and> executeTemplate \<lparr> PackageName = packageName t,
                            Imports = usedLoop (rangeOrder e m) [],
                            Setters = setters \<rparr>
           = companionText (packageName t) (usedLoop (rangeOrder e m) []) setters
       \<and> list_all (\<lambda>p. p \<in> set (imports_list t) \<and> referenced setters p)
                  (usedLoop (rangeOrder e m) [])"
proof -
  let ?imps = "usedLoop (rangeOrder e m) []"
  have init: "\<forall>x \<in> set (importsMapLoop (imports_list t) []). entryOk (imports_list t) [] x"
    by (rule importsMapLoop_ok) simp_all
  have ok: "\<forall>x \<in> set m. entryOk (imports_list t) setters x"
    using structLoop_ok[OF synth init] .
  have listed: "\<forall>p \<in> set ?imps. p \<in> set (imports_list t) \<and> referenced setters p"
  proof
    fix p assume "p \<in> set ?imps"
    then obtain k u where "(k, u) \<in> set m" "used u" "p = pkg u"
      using once by (auto simp: set_usedLoop rangesOnce_def)
    with ok show "p \<in> set (imports_list t) \<and> referenced setters p"
      by (fastforce simp: entryOk_def)
  qed
  then have only_used: "list_all (\<lambda>p. p \<in> set (imports_list t) \<and> referenced setters p) ?imps"
    by (simp add: list_all_iff)
  have "list_all htmlSafe ?imps"
    using listed safe(2) by (auto simp: list_all_iff)
  then have rendered: "executeTemplate \<lparr> PackageName = packageName t, Imports = ?imps, Setters = setters \<rparr>
                   = companionText (packageName t) ?imps setters"
    using executeTemplate_safe[OF safe(1) _ safe(3)] by blast
  have out: "filepath_Join [path t, strings_TrimSuffix (filename t) ''.go'' @ ''_setters.go'']
             = companionPath (path t) foo"
    using outputPath_eq[OF dir(2,3) named(2)] dir(1) named(1) by simp
  have "generateTargetSetter e t targets fs
           = (Returns None, fs(companionPath (path t) foo \<mapsto> formatted))"
    using synth some formats writes
    by (simp add: generateTargetSetter_def Let_def out os_WriteFile_def)
  with rendered only_used show ?thesis by blast
qed

lemma companion_file_unescaped_example:
  "generateTargetSetter (plainEnv exampleFile) exampleUnit targetFields Map.empty
     = (Returns None,
        [''/w/example/example_v1_setters.go''
           \<mapsto> companionText ''example'' [''time''] exampleSetters])
   \<and> referenced exampleSetters ''time''"
proof -
  let ?m = "[(''log'', \<lparr> pkg = ''log'', used = False \<rparr>), (''time'', \<lparr> pkg = ''time'', used = True \<rparr>)]"
  let ?e = "plainEnv exampleFile"
  have synth: "structLoop targetFields (structs exampleUnit) (importsMapLoop (imports_list exampleUnit) [], [])
                 = Returns (?m, exampleSetters)"
    by code_simp
  have some: "exampleSetters \<noteq> []" by (simp add: exampleSetters_def)
  have once: "rangesOnce ?e ?m" by (simp add: rangesOnce_def plainEnv_def)
  have s1: "htmlSafe (packageName exampleUnit)" by code_simp
  have s2: "list_all htmlSafe (imports_list exampleUnit)" by code_simp
  have s3: "list_all safeSetter exampleSetters" by code_simp
  have imps: "usedLoop (rangeOrder ?e ?m) [] = [''time'']" by (simp add: plainEnv_def)
  have fm: "format_Source ?e
              (executeTemplate \<lparr> PackageName = packageName exampleUnit,
                                 Imports = usedLoop (rangeOrder ?e ?m) [],
                                 Setters = exampleSetters \<rparr>)
            = Inr (executeTemplate \<lparr> PackageName = packageName exampleUnit,
                                 Imports = usedLoop (rangeOrder ?e ?m) [],
                                 Setters = exampleSetters \<rparr>)"
    by (simp add: plainEnv_def)
  have d1: "path exampleUnit = ''/'' @ joinWith ''/'' [''w'', ''example'']"
    by (simp add: exampleUnit_def)
  have d2: "[''w'', ''example''] \<noteq> []" by simp
  have d3: "list_all plainElement [''w'', ''example'']" by (simp add: plainElement_def)
  have f1: "filename exampleUnit = ''example_v1'' @ ''.go''" by (simp add: exampleUnit_def)
  have f2: "CHR ''/'' \<notin> set ''example_v1''" by simp
  have w: "writeFails ?e (companionPath (path exampleUnit) ''example_v1'') = None"
    by (simp add: plainEnv_def)
  have p: "companionPath (path exampleUnit) ''example_v1'' = ''/w/example/example_v1_setters.go''"
    by (simp add: companionPath_def exampleUnit_def)
  have n: "packageName exampleUnit = ''example''" by (simp add: exampleUnit_def)
  from companion_file_unescaped[OF synth some once s1 s2 s3 fm d1 d2 d3 f1 f2 w, of Map.empty]
  show ?thesis unfolding imps p n by simp
qed

end
